theory Spec2Isabelle
  imports Main
begin

section \<open>Values of the host language\<close>

text \<open>
  The program is a Python module (\<^verbatim>\<open>src/importlogging.py\<close>) with two classes,
  \<^verbatim>\<open>AIPayroll\<close> and \<^verbatim>\<open>APIUnifier\<close>, and one exception class,
  \<^verbatim>\<open>BankAPIUnifierException\<close>. Its only arithmetic is \<^verbatim>\<open>data_usage_bits * 1.0\<close>,
  a multiplication by a float literal, so Python's \<^verbatim>\<open>float\<close> (an IEEE 754 binary64
  number) is part of the model.

  \<open>Finite s m e\<close> stands for \<open>(-1)\<^sup>s \<sqdot> m \<sqdot> 2\<^sup>e\<close>. The values a double can hold have
  \<open>m < 2\<^sup>5\<^sup>3\<close>, \<open>-1074 \<le> e \<le> 971\<close> and either \<open>2\<^sup>5\<^sup>2 \<le> m\<close> (normal) or
  \<open>e = -1074\<close> (subnormal and zero).
\<close>

datatype float64 = Finite bool nat int | Infinity bool | NaN

fun bit_length :: "nat \<Rightarrow> nat" where
  "bit_length n = (if n = 0 then 0 else Suc (bit_length (n div 2)))"

declare bit_length.simps [simp del]

text \<open>
  Rounding of the exact magnitude \<open>m \<sqdot> 2\<^sup>e\<close> to the nearest double, ties to the even
  significand, overflow to infinity: what the hardware does after a multiplication and
  what CPython does when it converts an \<^verbatim>\<open>int\<close>.
\<close>

definition fl_round :: "bool \<Rightarrow> nat \<Rightarrow> int \<Rightarrow> float64" where
  "fl_round s m e =
     (if m = 0 then Finite s 0 (- 1074)
      else
        let t = max (- 1074) (e + int (bit_length m) - 53) in
        if t \<le> e then
          (if 971 < t then Infinity s else Finite s (m * 2 ^ nat (e - t)) t)
        else
          let k = nat (t - e);
              q = m div 2 ^ k;
              r = m mod 2 ^ k;
              h = 2 ^ (k - 1);
              q' = (if h < r \<or> (r = h \<and> odd q) then q + 1 else q)
          in
            if q' = 2 ^ 53 then
              (if 971 < t + 1 then Infinity s else Finite s (2 ^ 52) (t + 1))
            else if 971 < t then Infinity s
            else Finite s q' t)"

fun fl_mul :: "float64 \<Rightarrow> float64 \<Rightarrow> float64" where
  "fl_mul NaN y = NaN"
| "fl_mul (Infinity s) NaN = NaN"
| "fl_mul (Finite s m e) NaN = NaN"
| "fl_mul (Infinity s) (Infinity t) = Infinity (s \<noteq> t)"
| "fl_mul (Infinity s) (Finite t n f) = (if n = 0 then NaN else Infinity (s \<noteq> t))"
| "fl_mul (Finite s m e) (Infinity t) = (if m = 0 then NaN else Infinity (s \<noteq> t))"
| "fl_mul (Finite s m e) (Finite t n f) = fl_round (s \<noteq> t) (m * n) (e + f)"

text \<open>The values a double can hold.\<close>

fun fl_valid :: "float64 \<Rightarrow> bool" where
  "fl_valid (Finite s m e) =
     (m < 2 ^ 53 \<and> - 1074 \<le> e \<and> e \<le> 971 \<and> (2 ^ 52 \<le> m \<or> e = - 1074))"
| "fl_valid (Infinity s) = True"
| "fl_valid NaN = True"

text \<open>The literal \<^verbatim>\<open>1.0\<close>: \<open>2\<^sup>5\<^sup>2 \<sqdot> 2\<^sup>-\<^sup>5\<^sup>2\<close>.\<close>

definition fl_one :: float64 where
  "fl_one = Finite False 4503599627370496 (- 52)"

text \<open>
  \<^verbatim>\<open>float(n)\<close> for an \<^verbatim>\<open>int\<close>, as the mixed multiplication performs it: correctly
  rounded, and \<^verbatim>\<open>OverflowError\<close> (here \<open>None\<close>) when the result is not finite.
\<close>

definition fl_of_int :: "int \<Rightarrow> float64 option" where
  "fl_of_int n =
     (case fl_round (n < 0) (nat \<bar>n\<bar>) 0 of
        Finite s m e \<Rightarrow> Some (Finite s m e)
      | Infinity s \<Rightarrow> None
      | NaN \<Rightarrow> None)"

text \<open>
  The values the model lets flow through the program: \<^verbatim>\<open>None\<close>, \<^verbatim>\<open>int\<close>
  (unbounded), \<^verbatim>\<open>float\<close> and \<^verbatim>\<open>str\<close>.
\<close>

datatype pyval = PyNone | PyInt int | PyFloat float64 | PyStr string

text \<open>
  The exceptions that the program can meet. Each carries what \<^verbatim>\<open>str(e)\<close> is built
  from: the message, the missing key of a \<^verbatim>\<open>KeyError\<close>, the unbound name of a
  \<^verbatim>\<open>NameError\<close>.
\<close>

datatype exn =
    TypeError string
  | OverflowError string
  | KeyError string
  | NameError string
  | BankAPIUnifierException string

definition quoted :: "string \<Rightarrow> string" where
  "quoted s = CHR 0x27 # s @ [CHR 0x27]"

fun string_of_nat :: "nat \<Rightarrow> string" where
  "string_of_nat n =
     (if n < 10 then [char_of (48 + n)]
      else string_of_nat (n div 10) @ [char_of (48 + n mod 10)])"

declare string_of_nat.simps [simp del]

definition string_of_int :: "int \<Rightarrow> string" where
  "string_of_int i = (if i < 0 then CHR ''-'' # string_of_nat (nat (- i)) else string_of_nat (nat i))"

text \<open>
  \<^verbatim>\<open>str(v)\<close>, which is what a replacement field \<^verbatim>\<open>{v}\<close> of an f-string inserts. The
  text of a float (the shortest decimal that reads back as the same double) is the
  interpreter's; it is the parameter \<open>frepr\<close> of every function that formats a value.
  An \<^verbatim>\<open>int\<close> is written in decimal, whatever its size: the bound that recent
  interpreters put on the number of digits is a setting of theirs and is left out.
  The program formats an \<^verbatim>\<open>int\<close> only when a payload's \<^verbatim>\<open>'action'\<close> is one.
\<close>

fun py_str :: "(float64 \<Rightarrow> string) \<Rightarrow> pyval \<Rightarrow> string" where
  "py_str frepr PyNone = ''None''"
| "py_str frepr (PyInt i) = string_of_int i"
| "py_str frepr (PyFloat x) = frepr x"
| "py_str frepr (PyStr s) = s"

fun exn_str :: "exn \<Rightarrow> string" where
  "exn_str (TypeError m) = m"
| "exn_str (OverflowError m) = m"
| "exn_str (KeyError k) = quoted k"
| "exn_str (NameError n) = ''name '' @ quoted n @ '' is not defined''"
| "exn_str (BankAPIUnifierException m) = m"

text \<open>
  \<^verbatim>\<open>v * x\<close> for a float \<open>x\<close> on the right: an \<^verbatim>\<open>int\<close> is converted first, a float is
  multiplied, \<^verbatim>\<open>None\<close> and \<^verbatim>\<open>str\<close> have no such product.
\<close>

fun py_mul_float :: "pyval \<Rightarrow> float64 \<Rightarrow> exn + pyval" where
  "py_mul_float (PyInt n) x =
     (case fl_of_int n of
        None \<Rightarrow> Inl (OverflowError ''int too large to convert to float'')
      | Some a \<Rightarrow> Inr (PyFloat (fl_mul a x)))"
| "py_mul_float (PyFloat a) x = Inr (PyFloat (fl_mul a x))"
| "py_mul_float PyNone x =
     Inl (TypeError (''unsupported operand type(s) for *: '' @ quoted ''NoneType'' @ '' and '' @ quoted ''float''))"
| "py_mul_float (PyStr s) x =
     Inl (TypeError (''can'' @ [CHR 0x27] @ ''t multiply sequence by non-int of type '' @ quoted ''float''))"

section \<open>The world outside the module\<close>

text \<open>
  What the program does beyond returning: it hands records to \<^verbatim>\<open>logging\<close> and it
  calls the gateway. Both are kept as traces, in order.
\<close>

datatype level = INFO | ERROR

type_synonym payload = "(string \<times> pyval) list"

type_synonym request = "string \<times> payload"

record world =
  log_records :: "(level \<times> string) list"
  requests :: "request list"

definition logging_info :: "string \<Rightarrow> world \<Rightarrow> world" where
  "logging_info msg w = w\<lparr>log_records := log_records w @ [(INFO, msg)]\<rparr>"

definition logging_error :: "string \<Rightarrow> world \<Rightarrow> world" where
  "logging_error msg w = w\<lparr>log_records := log_records w @ [(ERROR, msg)]\<rparr>"

type_synonym gateway = "string \<Rightarrow> payload \<Rightarrow> world \<Rightarrow> (exn + pyval) \<times> world"

section \<open>APIUnifier\<close>

text \<open>
  \<^verbatim>\<open>
  def callAPI(service, data):
      if service == "bank_api":
          if data['action'] == 'credit':
              pass
          else:
              raise BankAPIUnifierException(f"Unrecognized action: {data['action']}")
      else:
          return None
  \<close>
  A payload is a dict with string keys, here an association list read with \<open>map_of\<close>;
  the subscript of a missing key raises \<^verbatim>\<open>KeyError\<close>. The credit branch is
  \<^verbatim>\<open>pass\<close>: it touches nothing and the call returns \<^verbatim>\<open>None\<close>.
\<close>

definition callAPI :: "(float64 \<Rightarrow> string) \<Rightarrow> gateway" where
  "callAPI frepr service data w =
     (if service = ''bank_api'' then
        (case map_of data ''action'' of
           None \<Rightarrow> (Inl (KeyError ''action''), w)
         | Some a \<Rightarrow>
             if a = PyStr ''credit'' then (Inr PyNone, w)
             else (Inl (BankAPIUnifierException (''Unrecognized action: '' @ py_str frepr a)), w))
      else (Inr PyNone, w))"

section \<open>AIPayroll\<close>

text \<open>
  An entity is any object with a \<^verbatim>\<open>unique_id\<close> attribute, a string; what else it
  carries is left to the record's extension.
\<close>

record entity =
  unique_id :: string

record 'a AIPayroll =
  ai_entities :: "'a entity_scheme list"

definition AIPayroll_init :: "'a entity_scheme list \<Rightarrow> 'a AIPayroll" where
  "AIPayroll_init es = \<lparr>ai_entities = es\<rparr>"

text \<open>
  \<^verbatim>\<open>calculate_data_usage_in_bits\<close> is a method whose body is \<^verbatim>\<open>pass\<close>: as shipped it
  returns \<^verbatim>\<open>None\<close>. A subclass is meant to override it, so the functions below take
  the method as the parameter \<open>usage\<close>, and this definition is the shipped one.
\<close>

definition calculate_data_usage_in_bits :: "'a entity_scheme \<Rightarrow> exn + pyval" where
  "calculate_data_usage_in_bits ai_entity = Inr PyNone"

definition calculate_pay :: "('a entity_scheme \<Rightarrow> exn + pyval) \<Rightarrow> 'a entity_scheme \<Rightarrow> exn + pyval" where
  "calculate_pay usage ai_entity =
     (case usage ai_entity of
        Inl x \<Rightarrow> Inl x
      | Inr data_usage_bits \<Rightarrow> py_mul_float data_usage_bits fl_one)"

text \<open>
  The names the module binds to exception classes, each with its \<^verbatim>\<open>isinstance\<close>
  test. The module defines one such class, at line 29. (Its other globals,
  \<^verbatim>\<open>logging\<close>, \<^verbatim>\<open>AIPayroll\<close> and \<^verbatim>\<open>APIUnifier\<close>, and the builtins are other names
  than the one the handler looks up.)
\<close>

fun is_BankAPIUnifierException :: "exn \<Rightarrow> bool" where
  "is_BankAPIUnifierException (BankAPIUnifierException m) = True"
| "is_BankAPIUnifierException x = False"

definition module_exception_classes :: "(string \<times> (exn \<Rightarrow> bool)) list" where
  "module_exception_classes = [(''BankAPIUnifierException'', is_BankAPIUnifierException)]"

text \<open>
  The dict literal of the call,
  \<^verbatim>\<open>{"action": "credit", "unique_id": ai_entity.unique_id, "amount": pay}\<close>.
\<close>

definition credit_payload :: "'a entity_scheme \<Rightarrow> pyval \<Rightarrow> payload" where
  "credit_payload ai_entity pay =
     [(''action'', PyStr ''credit''), (''unique_id'', PyStr (unique_id ai_entity)),
      (''amount'', pay)]"

definition info_message :: "(float64 \<Rightarrow> string) \<Rightarrow> pyval \<Rightarrow> 'a entity_scheme \<Rightarrow> string" where
  "info_message frepr pay ai_entity =
     ''Successfully credited $'' @ py_str frepr pay @ '' to AI entity '' @
       unique_id ai_entity @ ''.''"

definition error_message :: "'a entity_scheme \<Rightarrow> exn \<Rightarrow> string" where
  "error_message ai_entity e =
     ''Failed to process payroll for AI entity '' @ unique_id ai_entity @ '': '' @ exn_str e"

text \<open>
  One turn of the loop of \<^verbatim>\<open>process_payroll\<close>:
  \<^verbatim>\<open>
      pay = self.calculate_pay(ai_entity)
      try:
          APIUnifier.callAPI("bank_api",
              {"action": "credit", "unique_id": ai_entity.unique_id, "amount": pay})
          logging.info(f'Successfully credited ${pay} to AI entity {ai_entity.unique_id}.')
      except APIUnifierException as e:
          logging.error(f"Failed to process payroll for AI entity {ai_entity.unique_id}: {e}")
  \<close>
  The pay is computed before the \<^verbatim>\<open>try\<close>, so its exception leaves the loop. When
  the body of the \<^verbatim>\<open>try\<close> raises, Python evaluates the expression of the
  \<^verbatim>\<open>except\<close> clause, the name \<^verbatim>\<open>APIUnifierException\<close>: an unbound name raises
  \<^verbatim>\<open>NameError\<close> in place of the exception being handled; a bound class handles its
  instances and lets any other exception pass. The call target is looked up when the
  call is made, so the gateway is the parameter \<open>gw\<close>; \<open>process_payroll\<close> below is the
  program as shipped, with \<open>callAPI\<close>.
\<close>

definition process_entity ::
  "gateway \<Rightarrow> (float64 \<Rightarrow> string) \<Rightarrow> ('a entity_scheme \<Rightarrow> exn + pyval) \<Rightarrow>
     'a entity_scheme \<Rightarrow> world \<Rightarrow> (exn + unit) \<times> world" where
  "process_entity gw frepr usage ai_entity w =
     (case calculate_pay usage ai_entity of
        Inl x \<Rightarrow> (Inl x, w)
      | Inr pay \<Rightarrow>
          (case gw ''bank_api'' (credit_payload ai_entity pay)
                  (w\<lparr>requests := requests w @ [(''bank_api'', credit_payload ai_entity pay)]\<rparr>) of
             (Inr v, w') \<Rightarrow> (Inr (), logging_info (info_message frepr pay ai_entity) w')
           | (Inl e, w') \<Rightarrow>
               (case map_of module_exception_classes ''APIUnifierException'' of
                  None \<Rightarrow> (Inl (NameError ''APIUnifierException''), w')
                | Some isinstance \<Rightarrow>
                    if isinstance e
                    then (Inr (), logging_error (error_message ai_entity e) w')
                    else (Inl e, w'))))"

fun payroll_loop ::
  "gateway \<Rightarrow> (float64 \<Rightarrow> string) \<Rightarrow> ('a entity_scheme \<Rightarrow> exn + pyval) \<Rightarrow>
     'a entity_scheme list \<Rightarrow> world \<Rightarrow> (exn + unit) \<times> world" where
  "payroll_loop gw frepr usage [] w = (Inr (), w)"
| "payroll_loop gw frepr usage (ai_entity # rest) w =
     (case process_entity gw frepr usage ai_entity w of
        (Inl x, w') \<Rightarrow> (Inl x, w')
      | (Inr u, w') \<Rightarrow> payroll_loop gw frepr usage rest w')"

text \<open>
  The method returns its outcome, the object it was called on and the world it leaves.
\<close>

definition process_payroll_gw ::
  "gateway \<Rightarrow> (float64 \<Rightarrow> string) \<Rightarrow> ('a entity_scheme \<Rightarrow> exn + pyval) \<Rightarrow>
     'a AIPayroll \<Rightarrow> world \<Rightarrow> (exn + unit) \<times> 'a AIPayroll \<times> world" where
  "process_payroll_gw gw frepr usage self w =
     (case payroll_loop gw frepr usage (ai_entities self) w of
        (r, w') \<Rightarrow> (r, self, w'))"

definition process_payroll ::
  "(float64 \<Rightarrow> string) \<Rightarrow> ('a entity_scheme \<Rightarrow> exn + pyval) \<Rightarrow>
     'a AIPayroll \<Rightarrow> world \<Rightarrow> (exn + unit) \<times> 'a AIPayroll \<times> world" where
  "process_payroll frepr usage self w = process_payroll_gw (callAPI frepr) frepr usage self w"

section \<open>Facts about the arithmetic\<close>

lemma bit_length_le: "bit_length n \<le> k \<longleftrightarrow> n < 2 ^ k"
proof (induction n arbitrary: k rule: bit_length.induct)
  case (1 n)
  show ?case
  proof (cases "n = 0")
    case True
    then show ?thesis by (simp add: bit_length.simps)
  next
    case False
    show ?thesis
    proof (cases k)
      case 0
      with False show ?thesis by (simp add: bit_length.simps [of n])
    next
      case (Suc j)
      have "bit_length n \<le> Suc j \<longleftrightarrow> bit_length (n div 2) \<le> j"
        using False by (simp add: bit_length.simps [of n])
      also have "\<dots> \<longleftrightarrow> n div 2 < 2 ^ j"
        using "1.IH" [OF False] .
      also have "\<dots> \<longleftrightarrow> n < 2 ^ Suc j"
        by auto
      finally show ?thesis using Suc by simp
    qed
  qed
qed

lemma bit_length_eq:
  assumes "2 ^ k \<le> n" and "n < 2 ^ Suc k"
  shows "bit_length n = Suc k"
proof -
  from assms(2) have "bit_length n \<le> Suc k" by (simp only: bit_length_le)
  moreover from assms(1) have "\<not> bit_length n \<le> k" by (simp only: bit_length_le not_less)
  ultimately show ?thesis by simp
qed

lemma bit_length_bounds:
  assumes "0 < m"
  shows "m < 2 ^ bit_length m" and "2 ^ (bit_length m - 1) \<le> m" and "0 < bit_length m"
proof -
  show "m < 2 ^ bit_length m"
    using bit_length_le [of m "bit_length m"] by simp
  show pos: "0 < bit_length m"
    using assms by (simp add: bit_length.simps [of m])
  have "\<not> bit_length m \<le> bit_length m - 1" using pos by simp
  then show "2 ^ (bit_length m - 1) \<le> m"
    by (simp only: bit_length_le not_less)
qed

text \<open>A double times \<^verbatim>\<open>1.0\<close> is that double: the product is exact, and rounding keeps it.\<close>

lemma fl_round_shifted:
  assumes "m < 2 ^ 53" and "- 1074 \<le> e" and "e \<le> 971" and "2 ^ 52 \<le> m \<or> e = - 1074"
  shows "fl_round s (m * 4503599627370496) (e - 52) = Finite s m e"
proof (cases "m = 0")
  case True
  with assms show ?thesis by (simp add: fl_round_def)
next
  case False
  let ?b = "bit_length (m * 4503599627370496)"
  have "m * 4503599627370496 < 2 ^ 105" using assms(1) by simp
  then have up: "?b \<le> 105" by (simp only: bit_length_le)
  have normal: "?b = 105" if "2 ^ 52 \<le> m"
  proof -
    from that have "2 ^ 104 \<le> m * 4503599627370496" by simp
    moreover have "m * 4503599627370496 < 2 ^ Suc 104" using assms(1) by simp
    ultimately show ?thesis using bit_length_eq [of 104 "m * 4503599627370496"] by simp
  qed
  have t: "max (- 1074) (e - 52 + int ?b - 53) = e"
    using assms(2,4) up normal by auto
  show ?thesis
    unfolding fl_round_def Let_def t
    using False assms(1,3) by simp
qed

lemma fl_mul_one: "fl_valid x \<Longrightarrow> fl_mul x fl_one = x"
  by (cases x) (simp_all add: fl_one_def fl_round_shifted)

text \<open>Rounding always lands on a double (or on infinity).\<close>

lemma fl_round_valid: "fl_valid (fl_round s m e)"
proof (cases "m = 0")
  case True
  then show ?thesis by (simp add: fl_round_def)
next
  case False
  then have mpos: "0 < m" by simp
  define b where "b = bit_length m"
  define t where "t = max (- 1074) (e + int b - 53)"
  note bb = bit_length_bounds [OF mpos, folded b_def]
  have t_low: "- 1074 \<le> t" and t_ge: "e + int b - 53 \<le> t" by (simp_all add: t_def)
  have t_cases: "t = - 1074 \<or> t = e + int b - 53" by (auto simp add: t_def)
  show ?thesis
  proof (cases "t \<le> e")
    case True
    define j where "j = nat (e - t)"
    have bj: "b + j \<le> 53" using t_ge True by (simp add: j_def)
    have "m * 2 ^ j < 2 ^ b * 2 ^ j" using bb(1) by simp
    also have "\<dots> = 2 ^ (b + j)" by (simp add: power_add)
    also have "\<dots> \<le> 2 ^ 53" using bj by (simp only: power_increasing one_le_numeral)
    finally have up: "m * 2 ^ j < 2 ^ 53" .
    have low: "2 ^ 52 \<le> m * 2 ^ j" if "t \<noteq> - 1074"
    proof -
      from that t_cases have "t = e + int b - 53" by simp
      with True have j: "j = 53 - b" and "b \<le> 53" by (simp_all add: j_def)
      with bb(3) have "(b - 1) + j = 52" by simp
      then have "(2::nat) ^ 52 = 2 ^ (b - 1) * 2 ^ j" by (simp only: power_add [symmetric])
      also have "\<dots> \<le> m * 2 ^ j" using bb(2) by simp
      finally show ?thesis .
    qed
    show ?thesis
      using False True up low t_low
      by (auto simp add: fl_round_def Let_def b_def [symmetric] t_def [symmetric] j_def [symmetric])
  next
    case F: False
    define k where "k = nat (t - e)"
    define q where "q = m div 2 ^ k"
    define r where "r = m mod 2 ^ k"
    define q' where "q' = (if 2 ^ (k - 1) < r \<or> (r = 2 ^ (k - 1) \<and> odd q) then q + 1 else q)"
    have bk: "b \<le> k + 53" using t_ge F by (simp add: k_def)
    have "m < 2 ^ b" by (rule bb(1))
    also have "\<dots> \<le> 2 ^ (k + 53)" using bk by (simp only: power_increasing one_le_numeral)
    finally have "m < 2 ^ 53 * 2 ^ k" by (simp add: power_add mult.commute)
    then have q53: "q < 2 ^ 53" by (simp add: q_def less_mult_imp_div_less)
    then have q'53: "q' \<le> 2 ^ 53" by (simp add: q'_def)
    have qq': "q \<le> q'" by (simp add: q'_def)
    have low: "2 ^ 52 \<le> q" if "t \<noteq> - 1074"
    proof -
      from that t_cases have "t = e + int b - 53" by simp
      with F have "b - 1 = 52 + k" by (simp add: k_def)
      then have "(2::nat) ^ 52 * 2 ^ k = 2 ^ (b - 1)" by (simp only: power_add)
      also have "\<dots> \<le> m" by (rule bb(2))
      finally have "2 ^ 52 * 2 ^ k \<le> m" .
      then have "2 ^ 52 * 2 ^ k div 2 ^ k \<le> m div 2 ^ k" by (rule div_le_mono)
      then show ?thesis by (simp add: q_def)
    qed
    have unfolded: "fl_round s m e =
        (if q' = 2 ^ 53 then (if 971 < t + 1 then Infinity s else Finite s (2 ^ 52) (t + 1))
         else if 971 < t then Infinity s else Finite s q' t)"
      using False F
      by (simp add: fl_round_def Let_def b_def [symmetric] t_def [symmetric] k_def [symmetric]
            q_def [symmetric] r_def [symmetric] q'_def)
    show ?thesis
      unfolding unfolded using q'53 qq' low t_low by auto
  qed
qed

lemma fl_of_int_valid:
  assumes "fl_of_int n = Some a"
  shows "fl_valid a"
proof -
  from assms have "fl_round (n < 0) (nat \<bar>n\<bar>) 0 = a"
    by (simp add: fl_of_int_def split: float64.splits)
  with fl_round_valid [of "n < 0" "nat \<bar>n\<bar>" 0] show ?thesis by simp
qed

text \<open>The pay of 100 bits, evaluated: \<^verbatim>\<open>100 * 1.0\<close> is \<open>100 \<sqdot> 2\<^sup>4\<^sup>6 \<sqdot> 2\<^sup>-\<^sup>4\<^sup>6\<close>.\<close>

lemma float_of_100: "fl_of_int 100 = Some (Finite False 7036874417766400 (- 46))"
  by (simp add: fl_of_int_def fl_round_def bit_length.simps Let_def)

lemma float_100_times_one:
  "fl_mul (Finite False 7036874417766400 (- 46)) fl_one = Finite False 7036874417766400 (- 46)"
  by (simp add: fl_mul_one)

section \<open>Facts about the loop\<close>

lemma payroll_loop_append:
  "payroll_loop gw frepr usage (xs @ ys) w =
     (case payroll_loop gw frepr usage xs w of
        (Inl x, w') \<Rightarrow> (Inl x, w')
      | (Inr u, w') \<Rightarrow> payroll_loop gw frepr usage ys w')"
  by (induction xs arbitrary: w) (auto split: prod.splits sum.splits)

text \<open>
  The handler names \<^verbatim>\<open>APIUnifierException\<close>; the module binds
  \<^verbatim>\<open>BankAPIUnifierException\<close>.
\<close>

lemma handler_name_unbound: "map_of module_exception_classes ''APIUnifierException'' = None"
  by (simp add: module_exception_classes_def)

lemma process_entity_pay_raises:
  assumes "calculate_pay usage e = Inl x"
  shows "process_entity gw frepr usage e w = (Inl x, w)"
  using assms by (simp add: process_entity_def)

lemma process_entity_gateway_raises:
  assumes "calculate_pay usage e = Inr pay"
    and "gw ''bank_api'' (credit_payload e pay)
           (w\<lparr>requests := requests w @ [(''bank_api'', credit_payload e pay)]\<rparr>) = (Inl x, w')"
  shows "process_entity gw frepr usage e w = (Inl (NameError ''APIUnifierException''), w')"
  using assms by (simp add: process_entity_def handler_name_unbound)

lemma process_entity_gateway_returns:
  assumes "calculate_pay usage e = Inr pay"
    and "gw ''bank_api'' (credit_payload e pay)
           (w\<lparr>requests := requests w @ [(''bank_api'', credit_payload e pay)]\<rparr>) = (Inr v, w')"
  shows "process_entity gw frepr usage e w = (Inr (), logging_info (info_message frepr pay e) w')"
  using assms by (simp add: process_entity_def)

lemma callAPI_credit_payload:
  "callAPI frepr ''bank_api'' (credit_payload e pay) w = (Inr PyNone, w)"
  by (simp add: callAPI_def credit_payload_def)

lemma process_entity_callAPI:
  assumes "calculate_pay usage e = Inr pay"
  shows "process_entity (callAPI frepr) frepr usage e w =
           (Inr (), w\<lparr>log_records := log_records w @ [(INFO, info_message frepr pay e)],
                       requests := requests w @ [(''bank_api'', credit_payload e pay)]\<rparr>)"
  using assms
  by (simp add: process_entity_gateway_returns [where v = PyNone] callAPI_credit_payload
        logging_info_def)

text \<open>
  With the gateway as shipped, and a pay for every entity, the loop runs to its end and
  leaves one request and one informational record per entity, in order.
\<close>

lemma payroll_loop_callAPI:
  assumes "\<forall>e\<in>set es. \<exists>pay. calculate_pay usage e = Inr pay"
  shows "\<exists>rs ls. payroll_loop (callAPI frepr) frepr usage es w =
             (Inr (), w\<lparr>log_records := log_records w @ ls, requests := requests w @ rs\<rparr>)
           \<and> list_all2 (\<lambda>e r. \<exists>pay. calculate_pay usage e = Inr pay \<and>
                 r = (''bank_api'', credit_payload e pay)) es rs
           \<and> list_all2 (\<lambda>e l. \<exists>pay. calculate_pay usage e = Inr pay \<and>
                 l = (INFO, info_message frepr pay e)) es ls"
  using assms
proof (induction es arbitrary: w)
  case Nil
  show ?case by simp
next
  case (Cons e es)
  from Cons.prems obtain pay where pay: "calculate_pay usage e = Inr pay" by auto
  let ?w1 = "w\<lparr>log_records := log_records w @ [(INFO, info_message frepr pay e)],
                requests := requests w @ [(''bank_api'', credit_payload e pay)]\<rparr>"
  from Cons.prems have "\<forall>e\<in>set es. \<exists>pay. calculate_pay usage e = Inr pay" by simp
  from Cons.IH [OF this, of ?w1] obtain rs ls where
    loop: "payroll_loop (callAPI frepr) frepr usage es ?w1 =
             (Inr (), ?w1\<lparr>log_records := log_records ?w1 @ ls, requests := requests ?w1 @ rs\<rparr>)"
    and rs: "list_all2 (\<lambda>e r. \<exists>pay. calculate_pay usage e = Inr pay \<and>
                 r = (''bank_api'', credit_payload e pay)) es rs"
    and ls: "list_all2 (\<lambda>e l. \<exists>pay. calculate_pay usage e = Inr pay \<and>
                 l = (INFO, info_message frepr pay e)) es ls"
    by blast
  have "payroll_loop (callAPI frepr) frepr usage (e # es) w =
          (Inr (), w\<lparr>log_records := log_records w @ ((INFO, info_message frepr pay e) # ls),
                      requests := requests w @ ((''bank_api'', credit_payload e pay) # rs)\<rparr>)"
    by (simp add: process_entity_callAPI [OF pay] loop)
  moreover have "list_all2 (\<lambda>e r. \<exists>pay. calculate_pay usage e = Inr pay \<and>
                   r = (''bank_api'', credit_payload e pay))
                   (e # es) ((''bank_api'', credit_payload e pay) # rs)"
    using pay rs by simp
  moreover have "list_all2 (\<lambda>e l. \<exists>pay. calculate_pay usage e = Inr pay \<and>
                   l = (INFO, info_message frepr pay e))
                   (e # es) ((INFO, info_message frepr pay e) # ls)"
    using pay ls by simp
  ultimately show ?case by blast
qed

text \<open>
  Whatever the gateway does, as long as it does not write log records of its own, a
  turn of the loop adds at most one record, and that record is the informational one:
  the branch that would write the error record is behind the unbound handler name.
\<close>

lemma process_entity_log:
  assumes nolog: "\<forall>s d w0. log_records (snd (gw s d w0)) = log_records w0"
  shows "\<exists>rs. log_records (snd (process_entity gw frepr usage e w)) = log_records w @ rs
           \<and> (\<forall>r\<in>set rs. \<exists>pay. calculate_pay usage e = Inr pay \<and>
                 r = (INFO, info_message frepr pay e))"
proof (cases "calculate_pay usage e")
  case (Inl x)
  then show ?thesis by (simp add: process_entity_pay_raises)
next
  case (Inr pay)
  let ?w1 = "w\<lparr>requests := requests w @ [(''bank_api'', credit_payload e pay)]\<rparr>"
  obtain r w' where call: "gw ''bank_api'' (credit_payload e pay) ?w1 = (r, w')"
    by (cases "gw ''bank_api'' (credit_payload e pay) ?w1")
  from nolog [rule_format, of "''bank_api''" "credit_payload e pay" ?w1] call
  have same: "log_records w' = log_records w" by simp
  show ?thesis
  proof (cases r)
    case (Inl x)
    with Inr call same show ?thesis by (simp add: process_entity_gateway_raises)
  next
    case (Inr v)
    with \<open>calculate_pay usage e = Inr pay\<close> call same show ?thesis
      by (simp add: process_entity_gateway_returns logging_info_def)
  qed
qed

lemma payroll_loop_log:
  assumes nolog: "\<forall>s d w0. log_records (snd (gw s d w0)) = log_records w0"
  shows "\<exists>rs. log_records (snd (payroll_loop gw frepr usage es w)) = log_records w @ rs
           \<and> (\<forall>r\<in>set rs. \<exists>e\<in>set es. \<exists>pay. calculate_pay usage e = Inr pay \<and>
                 r = (INFO, info_message frepr pay e))"
proof (induction es arbitrary: w)
  case Nil
  show ?case by simp
next
  case (Cons e es)
  obtain r w' where step: "process_entity gw frepr usage e w = (r, w')"
    by (cases "process_entity gw frepr usage e w")
  from process_entity_log [OF nolog, where frepr = frepr and usage = usage and e = e and w = w]
    step
  obtain rs1 where
    rs1: "log_records w' = log_records w @ rs1"
    and t1: "\<forall>r\<in>set rs1. \<exists>pay. calculate_pay usage e = Inr pay \<and>
                 r = (INFO, info_message frepr pay e)"
    by auto
  show ?case
  proof (cases r)
    case (Inl x)
    with step rs1 t1 show ?thesis by auto
  next
    case (Inr u)
    from Cons.IH [of w'] obtain rs2 where
      rs2: "log_records (snd (payroll_loop gw frepr usage es w')) = log_records w' @ rs2"
      and t2: "\<forall>r\<in>set rs2. \<exists>e\<in>set es. \<exists>pay. calculate_pay usage e = Inr pay \<and>
                 r = (INFO, info_message frepr pay e)"
      by blast
    have "log_records (snd (payroll_loop gw frepr usage (e # es) w)) = log_records w @ (rs1 @ rs2)"
      using step Inr rs1 rs2 by simp
    moreover have "\<forall>r\<in>set (rs1 @ rs2). \<exists>e'\<in>set (e # es). \<exists>pay.
                 calculate_pay usage e' = Inr pay \<and> r = (INFO, info_message frepr pay e')"
      using t1 t2 by auto
    ultimately show ?thesis by blast
  qed
qed

text \<open>
  When the gateway call raises for an entity, the run ends there and the log is what
  it was after the entities before it: nothing is written for the failure.
\<close>

lemma payroll_loop_failure_log:
  assumes nolog: "\<forall>s d w0. log_records (snd (gw s d w0)) = log_records w0"
    and "payroll_loop gw frepr usage pre w = (Inr (), w1)"
    and "calculate_pay usage e = Inr pay"
    and "gw ''bank_api'' (credit_payload e pay)
           (w1\<lparr>requests := requests w1 @ [(''bank_api'', credit_payload e pay)]\<rparr>) = (Inl x, w2)"
  shows "payroll_loop gw frepr usage (pre @ e # post) w = (Inl (NameError ''APIUnifierException''), w2)"
    and "log_records w2 = log_records w1"
proof -
  show "payroll_loop gw frepr usage (pre @ e # post) w = (Inl (NameError ''APIUnifierException''), w2)"
    using assms(2-4) by (simp add: payroll_loop_append process_entity_gateway_raises)
  from nolog [rule_format, of "''bank_api''" "credit_payload e pay"
      "w1\<lparr>requests := requests w1 @ [(''bank_api'', credit_payload e pay)]\<rparr>"] assms(4)
  show "log_records w2 = log_records w1" by simp
qed

section \<open>The gateway\<close>

text \<open>
  C4. For every payload whose \<^verbatim>\<open>'action'\<close> value equals \<^verbatim>\<open>"credit"\<close>,
  \<^verbatim>\<open>callAPI("bank_api", payload)\<close> raises no failure, so in particular not the
  unrecognized-action one: it returns \<^verbatim>\<open>None\<close>.
\<close>

theorem callAPI_credit_succeeds:
  assumes "map_of data ''action'' = Some (PyStr ''credit'')"
  shows "callAPI frepr ''bank_api'' data w = (Inr PyNone, w)"
  using assms by (simp add: callAPI_def)

theorem callAPI_credit_succeeds_witness:
  "map_of [(''action'', PyStr ''credit''), (''unique_id'', PyStr ''ai-1''), (''amount'', PyFloat fl_one)]
       ''action'' = Some (PyStr ''credit'') \<and>
   callAPI (\<lambda>x. ''1.0'') ''bank_api''
       [(''action'', PyStr ''credit''), (''unique_id'', PyStr ''ai-1''), (''amount'', PyFloat fl_one)]
       \<lparr>log_records = [], requests = []\<rparr>
     = (Inr PyNone, \<lparr>log_records = [], requests = []\<rparr>)"
  using callAPI_credit_succeeds
    [of "[(''action'', PyStr ''credit''), (''unique_id'', PyStr ''ai-1''), (''amount'', PyFloat fl_one)]"
        "\<lambda>x. ''1.0''" "\<lparr>log_records = [], requests = []\<rparr>"]
  by simp

text \<open>
  C5. For every payload whose \<^verbatim>\<open>'action'\<close> value is a string other than
  \<^verbatim>\<open>"credit"\<close>, \<^verbatim>\<open>callAPI("bank_api", payload)\<close> raises
  \<^verbatim>\<open>BankAPIUnifierException\<close> with the message \<^verbatim>\<open>Unrecognized action: \<close> followed by
  that action string. It is the only failure the gateway defines: whatever the
  service, a payload whose \<^verbatim>\<open>'action'\<close> value is a string makes the call raise
  nothing else.
\<close>

theorem callAPI_unrecognized_action:
  assumes "map_of data ''action'' = Some (PyStr a)" and "a \<noteq> ''credit''"
  shows "callAPI frepr ''bank_api'' data w =
           (Inl (BankAPIUnifierException (''Unrecognized action: '' @ a)), w)
         \<and> (\<forall>service data' a' w' x. map_of data' ''action'' = Some (PyStr a') \<longrightarrow>
               fst (callAPI frepr service data' w') = Inl x \<longrightarrow>
               is_BankAPIUnifierException x)"
  using assms by (auto simp add: callAPI_def split: if_splits option.splits)

theorem callAPI_unrecognized_action_witness:
  "callAPI (\<lambda>x. ''1.0'') ''bank_api''
       [(''action'', PyStr ''debit''), (''unique_id'', PyStr ''ai-2''), (''amount'', PyFloat fl_one)]
       \<lparr>log_records = [], requests = []\<rparr>
     = (Inl (BankAPIUnifierException ''Unrecognized action: debit''),
        \<lparr>log_records = [], requests = []\<rparr>)"
  using callAPI_unrecognized_action
    [of "[(''action'', PyStr ''debit''), (''unique_id'', PyStr ''ai-2''), (''amount'', PyFloat fl_one)]"
        "''debit''" "\<lambda>x. ''1.0''" "\<lparr>log_records = [], requests = []\<rparr>"]
  by simp

text \<open>
  C6. For every service string other than \<^verbatim>\<open>"bank_api"\<close> and every payload,
  \<^verbatim>\<open>callAPI(service, payload)\<close> returns \<^verbatim>\<open>None\<close> and raises nothing.
\<close>

theorem callAPI_unknown_service:
  assumes "service \<noteq> ''bank_api''"
  shows "callAPI frepr service data w = (Inr PyNone, w)"
  using assms by (simp add: callAPI_def)

theorem callAPI_unknown_service_witness:
  "''crypto_api'' \<noteq> ''bank_api'' \<and>
   callAPI (\<lambda>x. ''1.0'') ''crypto_api'' [(''action'', PyStr ''debit'')]
       \<lparr>log_records = [], requests = []\<rparr>
     = (Inr PyNone, \<lparr>log_records = [], requests = []\<rparr>)"
  using callAPI_unknown_service
    [of "''crypto_api''" "\<lambda>x. ''1.0''" "[(''action'', PyStr ''debit'')]"
        "\<lparr>log_records = [], requests = []\<rparr>"]
  by simp

text \<open>
  C9. \<^verbatim>\<open>callAPI("bank_api", payload)\<close> subscripts the payload with \<^verbatim>\<open>'action'\<close>
  whatever the payload is: for every payload without that key the call fails with
  \<^verbatim>\<open>KeyError('action')\<close>, which is not the failure the gateway defines, and a payload
  that has the key never meets a \<^verbatim>\<open>KeyError\<close>. The branch is total only for a
  payload with an \<^verbatim>\<open>'action'\<close> key.
\<close>

theorem callAPI_missing_action:
  assumes "map_of data ''action'' = None"
  shows "callAPI frepr ''bank_api'' data w = (Inl (KeyError ''action''), w)
         \<and> (\<forall>data' k. map_of data' ''action'' \<noteq> None \<longrightarrow>
               fst (callAPI frepr ''bank_api'' data' w) \<noteq> Inl (KeyError k))"
  using assms by (auto simp add: callAPI_def split: if_splits)

theorem callAPI_missing_action_witness:
  "map_of [(''unique_id'', PyStr ''ai-1''), (''amount'', PyFloat fl_one)] ''action'' = None \<and>
   callAPI (\<lambda>x. ''1.0'') ''bank_api'' [(''unique_id'', PyStr ''ai-1''), (''amount'', PyFloat fl_one)]
       \<lparr>log_records = [], requests = []\<rparr>
     = (Inl (KeyError ''action''), \<lparr>log_records = [], requests = []\<rparr>)"
  using callAPI_missing_action
    [of "[(''unique_id'', PyStr ''ai-1''), (''amount'', PyFloat fl_one)]"
        "\<lambda>x. ''1.0''" "\<lparr>log_records = [], requests = []\<rparr>"]
  by simp

text \<open>
  C10. \<^verbatim>\<open>callAPI\<close> is stateless and deterministic: two calls with the same service
  and the same \<^verbatim>\<open>'action'\<close> value (or both without one) have the same outcome, the
  value returned or the error raised, whatever the other fields of the payloads and
  whatever the state of the world at each call; and no call changes that state.
\<close>

theorem callAPI_depends_on_action_only:
  assumes "map_of data1 ''action'' = map_of data2 ''action''"
  shows "fst (callAPI frepr service data1 w1) = fst (callAPI frepr service data2 w2)
         \<and> snd (callAPI frepr service data1 w1) = w1
         \<and> snd (callAPI frepr service data2 w2) = w2"
  using assms by (simp add: callAPI_def split: option.splits)

theorem callAPI_depends_on_action_only_witness:
  "fst (callAPI (\<lambda>x. ''1.0'') ''bank_api''
          [(''action'', PyStr ''debit''), (''unique_id'', PyStr ''ai-1''), (''amount'', PyFloat fl_one)]
          \<lparr>log_records = [], requests = []\<rparr>)
     = fst (callAPI (\<lambda>x. ''1.0'') ''bank_api''
          [(''unique_id'', PyStr ''ai-2''), (''action'', PyStr ''debit''), (''amount'', PyInt 7),
           (''memo'', PyNone)]
          \<lparr>log_records = [(INFO, ''earlier'')], requests = [(''bank_api'', [])]\<rparr>)
   \<and> snd (callAPI (\<lambda>x. ''1.0'') ''bank_api''
          [(''unique_id'', PyStr ''ai-2''), (''action'', PyStr ''debit''), (''amount'', PyInt 7),
           (''memo'', PyNone)]
          \<lparr>log_records = [(INFO, ''earlier'')], requests = [(''bank_api'', [])]\<rparr>)
     = \<lparr>log_records = [(INFO, ''earlier'')], requests = [(''bank_api'', [])]\<rparr>"
  using callAPI_depends_on_action_only
    [of "[(''action'', PyStr ''debit''), (''unique_id'', PyStr ''ai-1''), (''amount'', PyFloat fl_one)]"
        "[(''unique_id'', PyStr ''ai-2''), (''action'', PyStr ''debit''), (''amount'', PyInt 7),
          (''memo'', PyNone)]"
        "\<lambda>x. ''1.0''" "''bank_api''" "\<lparr>log_records = [], requests = []\<rparr>"
        "\<lparr>log_records = [(INFO, ''earlier'')], requests = [(''bank_api'', [])]\<rparr>"]
  by simp

section \<open>The payroll processor\<close>

text \<open>
  C3. For every entity, if \<^verbatim>\<open>calculate_data_usage_in_bits\<close> returns \<open>d\<close>, then the
  outcome of \<^verbatim>\<open>calculate_pay\<close> is the outcome of \<^verbatim>\<open>d * 1.0\<close>, the rate being the
  literal \<^verbatim>\<open>1.0\<close>. For a float \<open>d\<close> that product is \<open>d\<close> itself, and for an
  \<^verbatim>\<open>int\<close> \<open>d\<close> that converts to a float it is that float. (The non-negative numbers
  of the claim are among these \<open>d\<close>.)
\<close>

theorem calculate_pay_rate:
  assumes "usage e = Inr d"
  shows "calculate_pay usage e = py_mul_float d fl_one
         \<and> (\<forall>x. d = PyFloat x \<longrightarrow> fl_valid x \<longrightarrow> calculate_pay usage e = Inr (PyFloat x))
         \<and> (\<forall>n a. d = PyInt n \<longrightarrow> fl_of_int n = Some a \<longrightarrow>
               calculate_pay usage e = Inr (PyFloat a))"
  using assms by (simp add: calculate_pay_def fl_mul_one fl_of_int_valid)

theorem calculate_pay_rate_witness:
  "calculate_pay (\<lambda>e. Inr (PyInt 100)) \<lparr>unique_id = ''ai-1''\<rparr>
     = Inr (PyFloat (Finite False 7036874417766400 (- 46)))
   \<and> calculate_pay (\<lambda>e. Inr (PyInt 100)) \<lparr>unique_id = ''ai-1''\<rparr>
     = py_mul_float (PyInt 100) fl_one
   \<and> calculate_pay (\<lambda>e. Inr (PyFloat (Finite False 0 (- 1074)))) \<lparr>unique_id = ''ai-2''\<rparr>
     = Inr (PyFloat (Finite False 0 (- 1074)))"
  using calculate_pay_rate [of "\<lambda>e. Inr (PyInt 100)" "\<lparr>unique_id = ''ai-1''\<rparr>" "PyInt 100"]
    calculate_pay_rate [of "\<lambda>e. Inr (PyFloat (Finite False 0 (- 1074)))"
      "\<lparr>unique_id = ''ai-2''\<rparr>" "PyFloat (Finite False 0 (- 1074))"]
  by (simp add: float_of_100 fl_mul_one)

text \<open>
  C1. The claim is that an error raised by the gateway call inside the \<^verbatim>\<open>try\<close> block
  is caught in the loop, turned into an error log record and never leaves
  \<^verbatim>\<open>process_payroll\<close>. The code does not do that. Wherever in the sequence the
  gateway call first raises, whatever it raises, \<^verbatim>\<open>process_payroll\<close> ends there
  with \<^verbatim>\<open>NameError\<close> (the handler's class name is unbound), the world is left as the
  gateway left it, with no record added, and the entities after that one are not
  processed.
\<close>

theorem gateway_failure_escapes_process_payroll:
  assumes "payroll_loop gw frepr usage pre w = (Inr (), w1)"
    and "calculate_pay usage e = Inr pay"
    and "gw ''bank_api'' (credit_payload e pay)
           (w1\<lparr>requests := requests w1 @ [(''bank_api'', credit_payload e pay)]\<rparr>) = (Inl x, w2)"
  shows "process_payroll_gw gw frepr usage (AIPayroll_init (pre @ e # post)) w =
           (Inl (NameError ''APIUnifierException''), AIPayroll_init (pre @ e # post), w2)"
  using assms
  by (simp add: process_payroll_gw_def AIPayroll_init_def payroll_loop_append
        process_entity_gateway_raises)

text \<open>
  A run of three entities with 100 bits each, against a gateway that refuses the
  second: the first is credited and logged, the second ends the run with
  \<^verbatim>\<open>NameError\<close> and no error record, the third is never reached.
\<close>

theorem gateway_failure_escapes_process_payroll_witness:
  "process_payroll_gw
       (\<lambda>service data w.
          if map_of data ''unique_id'' = Some (PyStr ''ai-2'')
          then (Inl (BankAPIUnifierException ''account closed''), w)
          else callAPI (\<lambda>x. ''100.0'') service data w)
       (\<lambda>x. ''100.0'') (\<lambda>e. Inr (PyInt 100))
       (AIPayroll_init [\<lparr>unique_id = ''ai-1''\<rparr>, \<lparr>unique_id = ''ai-2''\<rparr>, \<lparr>unique_id = ''ai-3''\<rparr>])
       \<lparr>log_records = [], requests = []\<rparr>
     = (Inl (NameError ''APIUnifierException''),
        AIPayroll_init [\<lparr>unique_id = ''ai-1''\<rparr>, \<lparr>unique_id = ''ai-2''\<rparr>, \<lparr>unique_id = ''ai-3''\<rparr>],
        \<lparr>log_records = [(INFO, ''Successfully credited $100.0 to AI entity ai-1.'')],
          requests =
            [(''bank_api'',
              [(''action'', PyStr ''credit''), (''unique_id'', PyStr ''ai-1''),
               (''amount'', PyFloat (Finite False 7036874417766400 (- 46)))]),
             (''bank_api'',
              [(''action'', PyStr ''credit''), (''unique_id'', PyStr ''ai-2''),
               (''amount'', PyFloat (Finite False 7036874417766400 (- 46)))])]\<rparr>)"
  using gateway_failure_escapes_process_payroll
    [of "\<lambda>service data w.
          if map_of data ''unique_id'' = Some (PyStr ''ai-2'')
          then (Inl (BankAPIUnifierException ''account closed''), w)
          else callAPI (\<lambda>x. ''100.0'') service data w"
        "\<lambda>x. ''100.0''" "\<lambda>e. Inr (PyInt 100)" "[\<lparr>unique_id = ''ai-1''\<rparr>]"
        "\<lparr>log_records = [], requests = []\<rparr>"
        "\<lparr>log_records = [(INFO, ''Successfully credited $100.0 to AI entity ai-1.'')],
          requests =
            [(''bank_api'',
              [(''action'', PyStr ''credit''), (''unique_id'', PyStr ''ai-1''),
               (''amount'', PyFloat (Finite False 7036874417766400 (- 46)))])]\<rparr>"
        "\<lparr>unique_id = ''ai-2''\<rparr>"
        "PyFloat (Finite False 7036874417766400 (- 46))"
        "BankAPIUnifierException ''account closed''"
        "\<lparr>log_records = [(INFO, ''Successfully credited $100.0 to AI entity ai-1.'')],
          requests =
            [(''bank_api'',
              [(''action'', PyStr ''credit''), (''unique_id'', PyStr ''ai-1''),
               (''amount'', PyFloat (Finite False 7036874417766400 (- 46)))]),
             (''bank_api'',
              [(''action'', PyStr ''credit''), (''unique_id'', PyStr ''ai-2''),
               (''amount'', PyFloat (Finite False 7036874417766400 (- 46)))])]\<rparr>"
        "[\<lparr>unique_id = ''ai-3''\<rparr>]"]
  by (simp add: calculate_pay_def float_of_100 float_100_times_one credit_payload_def
        process_entity_def callAPI_def logging_info_def info_message_def)

text \<open>
  C2, as stated, fails on the program as shipped: \<^verbatim>\<open>calculate_data_usage_in_bits\<close>
  returns \<^verbatim>\<open>None\<close>, the product \<^verbatim>\<open>None * 1.0\<close> raises \<^verbatim>\<open>TypeError\<close> before the
  \<^verbatim>\<open>try\<close>, and for a sequence of one entity no credit request is issued.
\<close>

theorem process_payroll_stub_counterexample:
  "process_payroll (\<lambda>x. ''0.0'') calculate_data_usage_in_bits
       (AIPayroll_init [\<lparr>unique_id = ''ai-1''\<rparr>]) \<lparr>log_records = [], requests = []\<rparr>
     = (Inl (TypeError (''unsupported operand type(s) for *: '' @ quoted ''NoneType'' @
                 '' and '' @ quoted ''float'')),
        AIPayroll_init [\<lparr>unique_id = ''ai-1''\<rparr>],
        \<lparr>log_records = [], requests = []\<rparr>)
   \<and> length (requests (snd (snd (process_payroll (\<lambda>x. ''0.0'') calculate_data_usage_in_bits
         (AIPayroll_init [\<lparr>unique_id = ''ai-1''\<rparr>]) \<lparr>log_records = [], requests = []\<rparr>))))
       \<noteq> length (ai_entities (AIPayroll_init [\<lparr>unique_id = ''ai-1''\<rparr>]))"
  by (simp add: process_payroll_def process_payroll_gw_def AIPayroll_init_def process_entity_def
        calculate_pay_def calculate_data_usage_in_bits_def)

text \<open>
  C2, amended. For every sequence of \<open>N\<close> entities for each of which
  \<^verbatim>\<open>calculate_pay\<close> returns a value, \<^verbatim>\<open>process_payroll\<close> (with the gateway as
  shipped) returns normally and issues exactly \<open>N\<close> credit requests to the gateway, one
  per entity, in the order of the held sequence, each carrying the action
  \<^verbatim>\<open>"credit"\<close>, the entity's unique id and its pay.
\<close>

theorem process_payroll_one_request_per_entity:
  assumes "\<forall>e\<in>set (ai_entities self). \<exists>pay. calculate_pay usage e = Inr pay"
  shows "fst (process_payroll frepr usage self w) = Inr ()
         \<and> (\<exists>rs. requests (snd (snd (process_payroll frepr usage self w))) = requests w @ rs
               \<and> length rs = length (ai_entities self)
               \<and> list_all2
                   (\<lambda>e r. \<exists>pay. calculate_pay usage e = Inr pay \<and>
                      r = (''bank_api'',
                           [(''action'', PyStr ''credit''), (''unique_id'', PyStr (unique_id e)),
                            (''amount'', pay)]))
                   (ai_entities self) rs)"
proof -
  from payroll_loop_callAPI [OF assms, of frepr w] obtain rs ls where
    loop: "payroll_loop (callAPI frepr) frepr usage (ai_entities self) w =
             (Inr (), w\<lparr>log_records := log_records w @ ls, requests := requests w @ rs\<rparr>)"
    and rs: "list_all2 (\<lambda>e r. \<exists>pay. calculate_pay usage e = Inr pay \<and>
               r = (''bank_api'', credit_payload e pay)) (ai_entities self) rs"
    by blast
  from rs have len: "length rs = length (ai_entities self)"
    by (simp add: list_all2_lengthD)
  from rs have rs': "list_all2
                   (\<lambda>e r. \<exists>pay. calculate_pay usage e = Inr pay \<and>
                      r = (''bank_api'',
                           [(''action'', PyStr ''credit''), (''unique_id'', PyStr (unique_id e)),
                            (''amount'', pay)]))
                   (ai_entities self) rs"
    by (simp add: credit_payload_def)
  show ?thesis
    using len rs' by (simp add: process_payroll_def process_payroll_gw_def loop)
qed

theorem process_payroll_one_request_per_entity_witness:
  "fst (process_payroll (\<lambda>x. ''100.0'') (\<lambda>e. Inr (PyInt 100))
          (AIPayroll_init [\<lparr>unique_id = ''ai-1''\<rparr>, \<lparr>unique_id = ''ai-2''\<rparr>])
          \<lparr>log_records = [], requests = []\<rparr>) = Inr ()
   \<and> requests (snd (snd (process_payroll (\<lambda>x. ''100.0'') (\<lambda>e. Inr (PyInt 100))
          (AIPayroll_init [\<lparr>unique_id = ''ai-1''\<rparr>, \<lparr>unique_id = ''ai-2''\<rparr>])
          \<lparr>log_records = [], requests = []\<rparr>)))
      = [(''bank_api'',
            [(''action'', PyStr ''credit''), (''unique_id'', PyStr ''ai-1''),
             (''amount'', PyFloat (Finite False 7036874417766400 (- 46)))]),
         (''bank_api'',
            [(''action'', PyStr ''credit''), (''unique_id'', PyStr ''ai-2''),
             (''amount'', PyFloat (Finite False 7036874417766400 (- 46)))])]"
  using process_payroll_one_request_per_entity
    [of "AIPayroll_init [\<lparr>unique_id = ''ai-1''\<rparr>, \<lparr>unique_id = ''ai-2''\<rparr>]"
        "\<lambda>e. Inr (PyInt 100)" "\<lambda>x. ''100.0''" "\<lparr>log_records = [], requests = []\<rparr>"]
  by (simp add: AIPayroll_init_def calculate_pay_def float_of_100 float_100_times_one
        list_all2_Cons1)

text \<open>
  C7. The claim is that every log record of \<^verbatim>\<open>process_payroll\<close> follows one of two
  templates: on success the informational
  \<^verbatim>\<open>Successfully credited $<amount> to AI entity <id>.\<close>, on failure the error
  \<^verbatim>\<open>Failed to process payroll for AI entity <id>: <error detail>\<close>. The code writes the
  first and never the second. For every gateway that writes no log record itself:
  every record the run adds is at level INFO and is the informational template for an
  entity of the held sequence and the pay computed for it; when the gateway call
  raises for an entity, the log stays what it was after the entities before it, so
  nothing is logged for the failure; and with the shipped gateway and a pay for every
  entity the records are the informational ones, one per entity, in order.
\<close>

theorem process_payroll_logs_info_only:
  assumes "\<forall>s d w0. log_records (snd (gw s d w0)) = log_records w0"
  shows "(\<exists>rs. log_records (snd (snd (process_payroll_gw gw frepr usage self w))) = log_records w @ rs
           \<and> (\<forall>r\<in>set rs. fst r = INFO \<and>
                 (\<exists>e\<in>set (ai_entities self). \<exists>pay. calculate_pay usage e = Inr pay \<and>
                    r = (INFO, ''Successfully credited $'' @ py_str frepr pay @ '' to AI entity '' @
                           unique_id e @ ''.''))))
         \<and> (\<forall>pre e post pay w1 x w2.
               ai_entities self = pre @ e # post \<longrightarrow>
               payroll_loop gw frepr usage pre w = (Inr (), w1) \<longrightarrow>
               calculate_pay usage e = Inr pay \<longrightarrow>
               gw ''bank_api'' (credit_payload e pay)
                 (w1\<lparr>requests := requests w1 @ [(''bank_api'', credit_payload e pay)]\<rparr>) = (Inl x, w2) \<longrightarrow>
               fst (process_payroll_gw gw frepr usage self w) = Inl (NameError ''APIUnifierException'')
               \<and> log_records (snd (snd (process_payroll_gw gw frepr usage self w))) = log_records w1)
         \<and> ((\<forall>e\<in>set (ai_entities self). \<exists>pay. calculate_pay usage e = Inr pay) \<longrightarrow>
              (\<exists>ls. log_records (snd (snd (process_payroll frepr usage self w))) = log_records w @ ls
                 \<and> list_all2
                     (\<lambda>e l. \<exists>pay. calculate_pay usage e = Inr pay \<and>
                        l = (INFO, ''Successfully credited $'' @ py_str frepr pay @
                               '' to AI entity '' @ unique_id e @ ''.''))
                     (ai_entities self) ls))"
proof (intro conjI allI impI)
  from payroll_loop_log
    [OF assms, where frepr = frepr and usage = usage and es = "ai_entities self" and w = w]
  obtain rs where
    rs: "log_records (snd (payroll_loop gw frepr usage (ai_entities self) w)) = log_records w @ rs"
    and info: "\<forall>r\<in>set rs. \<exists>e\<in>set (ai_entities self). \<exists>pay. calculate_pay usage e = Inr pay \<and>
                 r = (INFO, info_message frepr pay e)"
    by blast
  have "log_records (snd (snd (process_payroll_gw gw frepr usage self w))) = log_records w @ rs"
    using rs by (simp add: process_payroll_gw_def split_beta)
  moreover have "\<forall>r\<in>set rs. fst r = INFO \<and>
                 (\<exists>e\<in>set (ai_entities self). \<exists>pay. calculate_pay usage e = Inr pay \<and>
                    r = (INFO, ''Successfully credited $'' @ py_str frepr pay @ '' to AI entity '' @
                           unique_id e @ ''.''))"
    using info by (fastforce simp add: info_message_def)
  ultimately show "\<exists>rs. log_records (snd (snd (process_payroll_gw gw frepr usage self w))) = log_records w @ rs
           \<and> (\<forall>r\<in>set rs. fst r = INFO \<and>
                 (\<exists>e\<in>set (ai_entities self). \<exists>pay. calculate_pay usage e = Inr pay \<and>
                    r = (INFO, ''Successfully credited $'' @ py_str frepr pay @ '' to AI entity '' @
                           unique_id e @ ''.'')))"
    by blast
next
  fix pre e post pay w1 x w2
  assume split: "ai_entities self = pre @ e # post"
    and prefix: "payroll_loop gw frepr usage pre w = (Inr (), w1)"
    and pay: "calculate_pay usage e = Inr pay"
    and fail: "gw ''bank_api'' (credit_payload e pay)
                 (w1\<lparr>requests := requests w1 @ [(''bank_api'', credit_payload e pay)]\<rparr>) = (Inl x, w2)"
  note run = payroll_loop_failure_log(1) [OF assms prefix pay fail, where post = post]
  note kept = payroll_loop_failure_log(2) [OF assms prefix pay fail]
  show "fst (process_payroll_gw gw frepr usage self w) = Inl (NameError ''APIUnifierException'')"
    using run split by (simp add: process_payroll_gw_def)
  show "log_records (snd (snd (process_payroll_gw gw frepr usage self w))) = log_records w1"
    using run kept split by (simp add: process_payroll_gw_def)
next
  assume pays: "\<forall>e\<in>set (ai_entities self). \<exists>pay. calculate_pay usage e = Inr pay"
  from payroll_loop_callAPI [OF pays, of frepr w] obtain rs ls where
    loop: "payroll_loop (callAPI frepr) frepr usage (ai_entities self) w =
             (Inr (), w\<lparr>log_records := log_records w @ ls, requests := requests w @ rs\<rparr>)"
    and ls: "list_all2 (\<lambda>e l. \<exists>pay. calculate_pay usage e = Inr pay \<and>
               l = (INFO, info_message frepr pay e)) (ai_entities self) ls"
    by blast
  from ls have "list_all2
                     (\<lambda>e l. \<exists>pay. calculate_pay usage e = Inr pay \<and>
                        l = (INFO, ''Successfully credited $'' @ py_str frepr pay @
                               '' to AI entity '' @ unique_id e @ ''.''))
                     (ai_entities self) ls"
    by (simp add: info_message_def)
  then show "\<exists>ls. log_records (snd (snd (process_payroll frepr usage self w))) = log_records w @ ls
                 \<and> list_all2
                     (\<lambda>e l. \<exists>pay. calculate_pay usage e = Inr pay \<and>
                        l = (INFO, ''Successfully credited $'' @ py_str frepr pay @
                               '' to AI entity '' @ unique_id e @ ''.''))
                     (ai_entities self) ls"
    by (simp add: process_payroll_def process_payroll_gw_def loop)
qed

text \<open>
  The run of three entities against a gateway that refuses the second: the log holds
  the informational record of the first and no record naming \<^verbatim>\<open>ai-2\<close>.
\<close>

theorem process_payroll_logs_info_only_witness:
  "log_records (snd (snd (process_payroll_gw
       (\<lambda>service data w.
          if map_of data ''unique_id'' = Some (PyStr ''ai-2'')
          then (Inl (BankAPIUnifierException ''account closed''), w)
          else callAPI (\<lambda>x. ''100.0'') service data w)
       (\<lambda>x. ''100.0'') (\<lambda>e. Inr (PyInt 100))
       (AIPayroll_init [\<lparr>unique_id = ''ai-1''\<rparr>, \<lparr>unique_id = ''ai-2''\<rparr>, \<lparr>unique_id = ''ai-3''\<rparr>])
       \<lparr>log_records = [], requests = []\<rparr>)))
     = [(INFO, ''Successfully credited $100.0 to AI entity ai-1.'')]
   \<and> fst (process_payroll_gw
       (\<lambda>service data w.
          if map_of data ''unique_id'' = Some (PyStr ''ai-2'')
          then (Inl (BankAPIUnifierException ''account closed''), w)
          else callAPI (\<lambda>x. ''100.0'') service data w)
       (\<lambda>x. ''100.0'') (\<lambda>e. Inr (PyInt 100))
       (AIPayroll_init [\<lparr>unique_id = ''ai-1''\<rparr>, \<lparr>unique_id = ''ai-2''\<rparr>, \<lparr>unique_id = ''ai-3''\<rparr>])
       \<lparr>log_records = [], requests = []\<rparr>)
     = Inl (NameError ''APIUnifierException'')"
  using process_payroll_logs_info_only
    [of "\<lambda>service data w.
          if map_of data ''unique_id'' = Some (PyStr ''ai-2'')
          then (Inl (BankAPIUnifierException ''account closed''), w)
          else callAPI (\<lambda>x. ''100.0'') service data w"
        "\<lambda>x. ''100.0''" "\<lambda>e. Inr (PyInt 100)"
        "AIPayroll_init [\<lparr>unique_id = ''ai-1''\<rparr>, \<lparr>unique_id = ''ai-2''\<rparr>, \<lparr>unique_id = ''ai-3''\<rparr>]"
        "\<lparr>log_records = [], requests = []\<rparr>"]
  by (simp add: callAPI_def process_payroll_gw_def AIPayroll_init_def process_entity_def
        calculate_pay_def float_of_100 float_100_times_one credit_payload_def logging_info_def
        info_message_def handler_name_unbound)

text \<open>
  C8. The sequence of entities a processor holds is the one its constructor was given,
  and \<^verbatim>\<open>process_payroll\<close> leaves the processor as it was, whether it returns or
  raises and whatever the gateway does: afterwards the held sequence is still the
  sequence passed to the constructor.
\<close>

theorem process_payroll_keeps_entities:
  "ai_entities (AIPayroll_init es) = es
   \<and> fst (snd (process_payroll_gw gw frepr usage (AIPayroll_init es) w)) = AIPayroll_init es
   \<and> ai_entities (fst (snd (process_payroll frepr usage (AIPayroll_init es) w))) = es"
  by (simp add: process_payroll_def process_payroll_gw_def AIPayroll_init_def split_beta)

theorem process_payroll_keeps_entities_witness:
  "ai_entities (fst (snd (process_payroll (\<lambda>x. ''100.0'') (\<lambda>e. Inr (PyInt 100))
       (AIPayroll_init [\<lparr>unique_id = ''ai-1''\<rparr>, \<lparr>unique_id = ''ai-2''\<rparr>])
       \<lparr>log_records = [], requests = []\<rparr>)))
     = [\<lparr>unique_id = ''ai-1''\<rparr>, \<lparr>unique_id = ''ai-2''\<rparr>]"
  using process_payroll_keeps_entities
    [of "[\<lparr>unique_id = ''ai-1''\<rparr>, \<lparr>unique_id = ''ai-2''\<rparr>]"
        "callAPI (\<lambda>x. ''100.0'')" "\<lambda>x. ''100.0''" "\<lambda>e. Inr (PyInt 100)"
        "\<lparr>log_records = [], requests = []\<rparr>"]
  by simp

end
